theory Spec2Isabelle
  imports Main
begin

section \<open>Shared Python-level notions\<close>

text \<open>
  Exceptions raised by the modelled code.  Python integers are unbounded, so they are
  \<^typ>\<open>int\<close>; \<open>//\<close> on integers is floor division, which is \<open>div\<close> on \<^typ>\<open>int\<close>.
\<close>

datatype error =
    ValueError
  | TypeError
  | AttributeError
  | NotADirectoryError
  | ZeroDivisionError
  | AssertionError

text \<open>
  Python orders tuples lexicographically: the first components decide unless they are
  equal.  These are \<open>a > b\<close> and \<open>a < b\<close> on pairs of integers.
\<close>

definition tuple_gt :: "int \<times> int \<Rightarrow> int \<times> int \<Rightarrow> bool" where
  "tuple_gt a b \<longleftrightarrow> fst a > fst b \<or> (fst a = fst b \<and> snd a > snd b)"

definition tuple_lt :: "int \<times> int \<Rightarrow> int \<times> int \<Rightarrow> bool" where
  "tuple_lt a b \<longleftrightarrow> fst a < fst b \<or> (fst a = fst b \<and> snd a < snd b)"

text \<open>
  A text position is either an explicit coordinate pair (a Python tuple) or a symbolic
  name (a Python string).
\<close>

datatype position = Point "int \<times> int" | Name string

section \<open>fontpreview.py\<close>

subsection \<open>Position table and text measurement\<close>

text \<open>The dictionary \<open>CALC_POSITION\<close>: \<open>ixy\<close> is the container size, \<open>fxy\<close> the content size.\<close>

definition CALC_POSITION ::
  "string \<Rightarrow> (int \<times> int \<Rightarrow> int \<times> int \<Rightarrow> int \<times> int) option" where
  "CALC_POSITION = map_of
     [(''center'', \<lambda>ixy fxy. ((fst ixy - fst fxy) div 2, (snd ixy - snd fxy) div 2)),
      (''top'', \<lambda>ixy fxy. ((fst ixy - fst fxy) div 2, 0)),
      (''below'', \<lambda>ixy fxy. ((fst ixy - fst fxy) div 2, snd ixy - snd fxy)),
      (''rcenter'', \<lambda>ixy fxy. (fst ixy - fst fxy, (snd ixy - snd fxy) div 2)),
      (''rtop'', \<lambda>ixy fxy. (fst ixy - fst fxy, 0)),
      (''rbelow'', \<lambda>ixy fxy. (fst ixy - fst fxy, snd ixy - snd fxy)),
      (''lcenter'', \<lambda>ixy fxy. (0, (snd ixy - snd fxy) div 2)),
      (''ltop'', \<lambda>ixy fxy. (0, 0)),
      (''lbelow'', \<lambda>ixy fxy. (0, snd ixy - snd fxy))]"

text \<open>
  A bounding box is \<open>(left, top, right, bottom)\<close>; \<open>_bbox2size\<close> reads it by index, as
  written here.
\<close>

type_synonym bbox = "int \<times> int \<times> int \<times> int"

definition bbox2size :: "bbox \<Rightarrow> int \<times> int" where
  "bbox2size bbox = (case bbox of (b0, b1, b2, b3) \<Rightarrow> (b2 - b0, b1 - b3))"

text \<open>
  A loaded font is its file and the size it was loaded at.  \<open>ImageFont.truetype\<close> of the
  imaging library builds it, and refuses a size that is not positive with a \<open>ValueError\<close>.
\<close>

record FreeTypeFont =
  path :: string
  font_px :: int

definition truetype :: "string \<Rightarrow> int \<Rightarrow> error + FreeTypeFont" where
  "truetype file n = (if n \<le> 0 then Inl ValueError else Inr \<lparr> path = file, font_px = n \<rparr>)"

text \<open>
  An image is its mode, its size, its background and what has been drawn on it since it
  was created, oldest first.
\<close>

datatype image =
  Image (mode: string) (width: int) (height: int) (background: string) (drawn: "draw_op list")
and draw_op =
    Text "int \<times> int" string string FreeTypeFont string
  | Paste image "int \<times> int"
  | Line "int \<times> int" "int \<times> int" string int

definition image_size :: "image \<Rightarrow> int \<times> int" where
  "image_size im = (width im, height im)"

definition Image_new :: "string \<Rightarrow> int \<times> int \<Rightarrow> string \<Rightarrow> image" where
  "Image_new m sz color = Image m (fst sz) (snd sz) color []"

definition image_do :: "draw_op \<Rightarrow> image \<Rightarrow> image" where
  "image_do d im = Image (mode im) (width im) (height im) (background im) (drawn im @ [d])"

record FontPreview =
  image :: image
  font_size :: int
  font_text :: string
  font :: FreeTypeFont
  color_system :: string
  bg_image :: "string option"
  bg_color :: string
  fg_color :: string
  dimension :: "int \<times> int"
  font_position :: "int \<times> int"

text \<open>
  What the modelled code calls but does not define: the measuring and file-reading
  functions of the imaging library, and the two methods of \<open>fontbanner.py\<close> that
  \<open>FontPage.set_logo\<close> uses.  They are parameters of the model, and these calls are taken
  to return.
  \<^item> \<open>getbbox f text\<close> is \<open>f.getbbox(text)\<close>;
  \<^item> \<open>multiline_textbbox text f\<close> is \<open>draw.multiline_textbbox(xy=[0, 0], text=text, font=f)\<close>;
  \<^item> \<open>Image_open file\<close> is \<open>Image.open(file)\<close>;
  \<^item> \<open>add_image banner other position\<close> is \<open>banner.add_image(other, position)\<close>, giving the
    banner and the other renderer as the call leaves them;
  \<^item> \<open>new_size size logo\<close> is \<open>logo.new_size(size)\<close>.
\<close>

record externals =
  getbbox :: "FreeTypeFont \<Rightarrow> string \<Rightarrow> bbox"
  multiline_textbbox :: "string \<Rightarrow> FreeTypeFont \<Rightarrow> bbox"
  Image_open :: "string \<Rightarrow> image"
  add_image :: "FontPreview \<Rightarrow> FontPreview \<Rightarrow> int \<times> int \<Rightarrow> FontPreview \<times> FontPreview"
  new_size :: "int \<times> int \<Rightarrow> FontPreview \<Rightarrow> FontPreview"

definition get_font_size :: "externals \<Rightarrow> FreeTypeFont \<Rightarrow> string \<Rightarrow> int \<times> int" where
  "get_font_size ext f text = bbox2size (getbbox ext f text)"

definition get_multiline_textsize :: "externals \<Rightarrow> string \<Rightarrow> FreeTypeFont \<Rightarrow> int \<times> int" where
  "get_multiline_textsize ext text f = bbox2size (multiline_textbbox ext text f)"

subsection \<open>\<open>FontPreview\<close>\<close>

text \<open>\<open>FontPreview.draw(align)\<close>: a fresh canvas, then the text on it.\<close>

definition draw :: "externals \<Rightarrow> string \<Rightarrow> FontPreview \<Rightarrow> FontPreview" where
  "draw ext align fp =
     (let canvas = (case bg_image fp of
                      None \<Rightarrow> Image_new (color_system fp) (dimension fp) (bg_color fp)
                    | Some file \<Rightarrow>
                        if file = [] then Image_new (color_system fp) (dimension fp) (bg_color fp)
                        else Image_open ext file)
      in fp\<lparr>image := image_do
                (Text (font_position fp) (font_text fp) (fg_color fp) (font fp) align) canvas\<rparr>)"

text \<open>
  \<open>FontPreview.__init__\<close>; the image attribute has no value before the first \<open>draw\<close>.
  Loading the font raises when the size is not positive.
\<close>

definition FontPreview_init ::
  "externals \<Rightarrow> string \<Rightarrow> int \<Rightarrow> string \<Rightarrow> string \<Rightarrow> string \<Rightarrow> string \<Rightarrow> int \<times> int
     \<Rightarrow> error + FontPreview" where
  "FontPreview_init ext file fsize text csys bg fg dim =
     (case truetype file fsize of
        Inl e \<Rightarrow> Inl e
      | Inr f \<Rightarrow>
          Inr (draw ext ''left''
            \<lparr> image = Image_new csys dim bg, font_size = fsize, font_text = text, font = f,
              color_system = csys, bg_image = None, bg_color = bg, fg_color = fg,
              dimension = dim,
              font_position = the (CALC_POSITION ''center'') dim (get_font_size ext f text) \<rparr>))"

text \<open>
  A method of a renderer returns its outcome with the renderer as the method leaves it:
  an exception does not undo the assignments made before it.
\<close>

type_synonym preview_result = "(error + unit) \<times> FontPreview"

text \<open>
  \<open>FontPreview.__resize\<close>.  \<open>resize_loop\<close> is the \<open>while\<close> statement, entered with the text
  size measured last.  Each round lowers \<open>font_size\<close> by two and reloads the font at that
  size; the loop ends when the test fails or when the reload raises, which it does as
  soon as the size is no longer positive.
\<close>

function resize_loop :: "externals \<Rightarrow> int \<times> int \<Rightarrow> FontPreview \<Rightarrow> preview_result" where
  "resize_loop ext text_size fp =
     (if tuple_gt text_size (dimension fp) then
        (let fp1 = fp\<lparr>font_size := font_size fp - 2\<rparr> in
         case truetype (path (font fp1)) (font_size fp1) of
           Inl e \<Rightarrow> (Inl e, fp1)
         | Inr f \<Rightarrow>
             resize_loop ext (get_multiline_textsize ext (font_text fp1) f) (fp1\<lparr>font := f\<rparr>))
      else (Inr (), fp))"
  by pat_completeness auto
termination
  by (relation "measure (\<lambda>(ext, text_size, fp). nat (font_size fp))")
     (auto simp: truetype_def split: if_splits)

declare resize_loop.simps [simp del]

definition resize :: "externals \<Rightarrow> FontPreview \<Rightarrow> preview_result" where
  "resize ext fp = resize_loop ext (get_multiline_textsize ext (font_text fp) (font fp)) fp"


text \<open>\<open>FontPreview.set_text_position(position)\<close>.\<close>

definition set_text_position :: "externals \<Rightarrow> position \<Rightarrow> FontPreview \<Rightarrow> FontPreview" where
  "set_text_position ext position fp =
     draw ext ''left''
       (case position of
          Point xy \<Rightarrow> fp\<lparr>font_position := xy\<rparr>
        | Name key \<Rightarrow>
            (let fxy = get_multiline_textsize ext (font_text fp) (font fp);
                 fn = (case CALC_POSITION key of
                         Some f \<Rightarrow> f
                       | None \<Rightarrow> the (CALC_POSITION ''center''))
             in fp\<lparr>font_position := fn (dimension fp) fxy\<rparr>))"

section \<open>fontpage.py: \<open>FontPageTemplate\<close>\<close>

record FontPageTemplate =
  page_height :: int
  unit :: int
  header_font_size :: int
  header_units :: int
  header_text_position :: position
  body_font_size :: int
  body_units :: int
  body_text_position :: position
  footer_font_size :: int
  footer_units :: int
  footer_text_position :: position

text \<open>\<open>FontPageTemplate.__init__(page_height, units_number)\<close>; dividing by zero raises.\<close>

definition FontPageTemplate_init :: "int \<Rightarrow> int \<Rightarrow> error + FontPageTemplate" where
  "FontPageTemplate_init ph units_number =
     (if units_number = 0 then Inl ZeroDivisionError
      else let u = ph div units_number in
        Inr \<lparr> page_height = ph, unit = u,
              header_font_size = 120, header_units = u,
              header_text_position = Name ''center'',
              body_font_size = 140, body_units = u * 3,
              body_text_position = Name ''center'',
              footer_font_size = 120, footer_units = u * 2,
              footer_text_position = Name ''center'' \<rparr>)"

text \<open>
  \<open>FontPageTemplate.__check_units(context, unit)\<close>: returns normally or raises
  \<open>ValueError\<close>; it never writes to the object.
\<close>

definition check_units :: "FontPageTemplate \<Rightarrow> string \<Rightarrow> int \<Rightarrow> error + unit" where
  "check_units t context u =
     (if context = ''header'' then
        (if u + body_units t + footer_units t > page_height t then Inl ValueError else Inr ())
      else if context = ''body'' then
        (if header_units t + u + footer_units t > page_height t then Inl ValueError else Inr ())
      else if context = ''footer'' then
        (if header_units t + body_units t + u > page_height t then Inl ValueError else Inr ())
      else Inl ValueError)"

text \<open>
  The three setters.  Each returns the outcome together with the object as it is when
  the method is left: an exception does not undo the assignments made before it.
\<close>

definition FontPageTemplate_set_header ::
  "int \<Rightarrow> int \<Rightarrow> position \<Rightarrow> FontPageTemplate \<Rightarrow> (error + unit) \<times> FontPageTemplate" where
  "FontPageTemplate_set_header fsize units text_position t =
     (let t1 = t\<lparr>header_font_size := fsize\<rparr>;
          u = unit t1 * units
      in case check_units t1 ''header'' u of
           Inl e \<Rightarrow> (Inl e, t1)
         | Inr _ \<Rightarrow> (Inr (), t1\<lparr>header_units := u, header_text_position := text_position\<rparr>))"

definition FontPageTemplate_set_body ::
  "int \<Rightarrow> int \<Rightarrow> position \<Rightarrow> FontPageTemplate \<Rightarrow> (error + unit) \<times> FontPageTemplate" where
  "FontPageTemplate_set_body fsize units text_position t =
     (let t1 = t\<lparr>body_font_size := fsize\<rparr>;
          u = unit t1 * units
      in case check_units t1 ''body'' u of
           Inl e \<Rightarrow> (Inl e, t1)
         | Inr _ \<Rightarrow> (Inr (), t1\<lparr>body_units := u, body_text_position := text_position\<rparr>))"

definition FontPageTemplate_set_footer ::
  "int \<Rightarrow> int \<Rightarrow> position \<Rightarrow> FontPageTemplate \<Rightarrow> (error + unit) \<times> FontPageTemplate" where
  "FontPageTemplate_set_footer fsize units text_position t =
     (let t1 = t\<lparr>footer_font_size := fsize\<rparr>;
          u = unit t1 * units
      in case check_units t1 ''footer'' u of
           Inl e \<Rightarrow> (Inl e, t1)
         | Inr _ \<Rightarrow> (Inr (), t1\<lparr>footer_units := u, footer_text_position := text_position\<rparr>))"

text \<open>
  A caller's sequence of setter calls, each one attempted on the object the previous one
  left behind (a raised exception is caught by the caller and the next call goes on).
\<close>

datatype template_call =
    SetHeader int int position
  | SetBody int int position
  | SetFooter int int position

fun template_apply :: "template_call \<Rightarrow> FontPageTemplate \<Rightarrow> (error + unit) \<times> FontPageTemplate" where
  "template_apply (SetHeader fs n p) t = FontPageTemplate_set_header fs n p t"
| "template_apply (SetBody fs n p) t = FontPageTemplate_set_body fs n p t"
| "template_apply (SetFooter fs n p) t = FontPageTemplate_set_footer fs n p t"

fun template_run ::
  "template_call list \<Rightarrow> FontPageTemplate \<Rightarrow> (error + unit) list \<times> FontPageTemplate" where
  "template_run [] t = ([], t)"
| "template_run (c # cs) t =
     (case template_apply c t of (r, t') \<Rightarrow>
        (case template_run cs t' of (rs, t'') \<Rightarrow> (r # rs, t'')))"

definition units_within_page :: "FontPageTemplate \<Rightarrow> bool" where
  "units_within_page t \<longleftrightarrow> header_units t + body_units t + footer_units t \<le> page_height t"

section \<open>fontpage.py: \<open>FontPage\<close>\<close>

text \<open>
  A page holds references to its renderers, and the same renderer may be header, body and
  footer at once, so the renderers live in a heap of objects indexed by address.  An
  object is a renderer with its class, or something else.
\<close>

text \<open>
  Modelled from the spec: the classes \<open>FontBanner\<close> and \<open>FontLogo\<close> of \<open>fontbanner.py\<close>,
  which is not among the sources.  Both are variants of \<open>FontPreview\<close>: an instance of
  either is an instance of \<open>FontPreview\<close> and has its fields and its \<open>draw\<close>,
  \<open>set_font_size\<close> and \<open>set_text_position\<close>; neither is a variant of the other.
\<close>

datatype renderer_class = Preview | Banner | Logo

datatype pyobj = Renderer renderer_class FontPreview | Other

type_synonym heap = "nat \<Rightarrow> pyobj"

definition is_FontPreview :: "pyobj \<Rightarrow> bool" where
  "is_FontPreview ob = (case ob of Renderer k fp \<Rightarrow> True | Other \<Rightarrow> False)"

definition is_FontBanner :: "pyobj \<Rightarrow> bool" where
  "is_FontBanner ob = (case ob of Renderer k fp \<Rightarrow> k = Banner | Other \<Rightarrow> False)"

definition is_FontLogo :: "pyobj \<Rightarrow> bool" where
  "is_FontLogo ob = (case ob of Renderer k fp \<Rightarrow> k = Logo | Other \<Rightarrow> False)"

text \<open>
  An attribute that the constructor may leave without any value: \<open>Unassigned\<close> is the
  attribute never written, \<open>Assigned None\<close> the attribute holding \<open>None\<close>.
\<close>

datatype 'a attr = Unassigned | Assigned 'a

record FontPage =
  template :: "FontPageTemplate option"
  page_dimension :: "int \<times> int"
  page_color_system :: string
  page :: image
  header :: "nat option"
  logo :: "nat option attr"
  body :: "nat option"
  footer :: "nat option"

text \<open>
  A method of a page returns its outcome with the page and the heap as the method leaves
  them.  \<open>then_do\<close> runs the next statement unless the previous one raised.
\<close>

type_synonym page_result = "(error + unit) \<times> FontPage \<times> heap"

definition then_do :: "page_result \<Rightarrow> (FontPage \<Rightarrow> heap \<Rightarrow> page_result) \<Rightarrow> page_result" where
  "then_do m f = (case m of (Inl e, pg, hp) \<Rightarrow> (Inl e, pg, hp) | (Inr u, pg, hp) \<Rightarrow> f pg hp)"

text \<open>The width check shared by \<open>set_header\<close>, \<open>set_body\<close> and \<open>set_footer\<close>.\<close>

definition widen :: "externals \<Rightarrow> FontPage \<Rightarrow> FontPreview \<Rightarrow> FontPreview" where
  "widen ext pg fp =
     (if width (page pg) \<noteq> width (image fp)
      then draw ext ''left'' (fp\<lparr>dimension := (width (page pg), height (image fp))\<rparr>)
      else fp)"

definition FontPage_set_header :: "externals \<Rightarrow> nat \<Rightarrow> FontPage \<Rightarrow> heap \<Rightarrow> page_result" where
  "FontPage_set_header ext r pg hp =
     (if is_FontBanner (hp r) then
        (case hp r of
           Renderer k fp \<Rightarrow>
             (Inr (), pg\<lparr>header := Some r\<rparr>, hp(r := Renderer k (widen ext pg fp)))
         | Other \<Rightarrow> (Inl TypeError, pg, hp))
      else (Inl TypeError, pg, hp))"

definition FontPage_set_body :: "externals \<Rightarrow> nat \<Rightarrow> FontPage \<Rightarrow> heap \<Rightarrow> page_result" where
  "FontPage_set_body ext r pg hp =
     (if \<not> is_FontPreview (hp r) then (Inl TypeError, pg, hp)
      else
        (case hp r of
           Renderer k fp \<Rightarrow>
             (Inr (), pg\<lparr>body := Some r\<rparr>, hp(r := Renderer k (widen ext pg fp)))
         | Other \<Rightarrow> (Inl TypeError, pg, hp)))"

definition FontPage_set_footer :: "externals \<Rightarrow> nat \<Rightarrow> FontPage \<Rightarrow> heap \<Rightarrow> page_result" where
  "FontPage_set_footer ext r pg hp =
     (if \<not> is_FontPreview (hp r) then (Inl TypeError, pg, hp)
      else
        (case hp r of
           Renderer k fp \<Rightarrow>
             (Inr (), pg\<lparr>footer := Some r\<rparr>, hp(r := Renderer k (widen ext pg fp)))
         | Other \<Rightarrow> (Inl TypeError, pg, hp)))"

text \<open>
  \<open>FontPage.set_logo(logo)\<close>.  The header and the logo are different objects, their
  classes being different.  Reading \<open>self.header.image\<close> off an object that is no renderer
  raises \<open>AttributeError\<close>.
\<close>

definition FontPage_set_logo :: "externals \<Rightarrow> nat \<Rightarrow> FontPage \<Rightarrow> heap \<Rightarrow> page_result" where
  "FontPage_set_logo ext r pg hp =
     (if \<not> is_FontLogo (hp r) then (Inl TypeError, pg, hp)
      else
        (case hp r of
           Other \<Rightarrow> (Inl TypeError, pg, hp)
         | Renderer lk lg \<Rightarrow>
             (case header pg of
                None \<Rightarrow> (Inl ValueError, pg, hp)
              | Some h \<Rightarrow>
                  (case hp h of
                     Other \<Rightarrow> (Inl AttributeError, pg, hp)
                   | Renderer hk hdr \<Rightarrow>
                       (let lg1 = (if tuple_lt (image_size (image hdr)) (image_size (image lg))
                                   then new_size ext (75, 75) lg else lg);
                            both = add_image ext hdr lg1
                                     (the (CALC_POSITION ''lcenter'') (dimension hdr)
                                        (get_font_size ext (font hdr) (font_text hdr)))
                        in (Inr (), pg,
                            hp(r := Renderer lk (snd both), h := Renderer hk (fst both))))))))"

text \<open>
  \<open>FontPage.__init__\<close>.  An argument is \<open>None\<close> or the address of an object.  When a
  setter raises, so does the constructor, and no page comes into being.
\<close>

definition FontPage_init ::
  "externals \<Rightarrow> FontPageTemplate option \<Rightarrow> int \<times> int \<Rightarrow> nat option \<Rightarrow> nat option
     \<Rightarrow> nat option \<Rightarrow> nat option \<Rightarrow> heap \<Rightarrow> page_result" where
  "FontPage_init ext tmpl dim header_arg logo_arg body_arg footer_arg hp =
     (let d = (case tmpl of Some t \<Rightarrow> (fst dim, page_height t) | None \<Rightarrow> dim);
          pg0 = \<lparr> template = tmpl, page_dimension = d, page_color_system = ''RGB'',
                  page = Image_new ''RGB'' d ''white'',
                  header = None, logo = Unassigned, body = None, footer = None \<rparr>
      in
      then_do
        (then_do
          (then_do
            (case header_arg of
               Some r \<Rightarrow> FontPage_set_header ext r pg0 hp
             | None \<Rightarrow> (Inr (), pg0\<lparr>header := None\<rparr>, hp))
            (\<lambda>pg hp. case logo_arg of
               Some r \<Rightarrow> FontPage_set_logo ext r pg hp
             | None \<Rightarrow> (Inr (), pg\<lparr>logo := Assigned None\<rparr>, hp)))
          (\<lambda>pg hp. case body_arg of
             Some r \<Rightarrow> FontPage_set_body ext r pg hp
           | None \<Rightarrow> (Inr (), pg\<lparr>body := None\<rparr>, hp)))
        (\<lambda>pg hp. case footer_arg of
           Some r \<Rightarrow> FontPage_set_footer ext r pg hp
         | None \<Rightarrow> (Inr (), pg\<lparr>footer := None\<rparr>, hp)))"




text \<open>\<open>FontPage.save(path)\<close> writes the page's canvas to a file.\<close>

datatype fs_node = Directory | File image

type_synonym filesystem = "string \<rightharpoonup> fs_node"

definition FontPage_save :: "string option \<Rightarrow> FontPage \<Rightarrow> filesystem \<Rightarrow> filesystem" where
  "FontPage_save path_arg pg fs =
     (let file = (case path_arg of
                    None \<Rightarrow> ''fontpage.png''
                  | Some q \<Rightarrow> if q = [] then ''fontpage.png'' else q)
      in fs(file \<mapsto> File (page pg)))"

section \<open>fontpage.py: \<open>FontBooklet\<close>\<close>

record FontBooklet =
  pages :: "FontPage list"

text \<open>\<open>Path.is_dir\<close>, \<open>Path.exists\<close>, \<open>Path.mkdir(parents=True)\<close> and \<open>folder / name\<close>.\<close>

definition is_dir :: "filesystem \<Rightarrow> string \<Rightarrow> bool" where
  "is_dir fs folder = (case fs folder of Some Directory \<Rightarrow> True | _ \<Rightarrow> False)"

definition path_exists :: "filesystem \<Rightarrow> string \<Rightarrow> bool" where
  "path_exists fs folder = (case fs folder of Some n \<Rightarrow> True | None \<Rightarrow> False)"

definition mkdir_parents :: "string \<Rightarrow> filesystem \<Rightarrow> filesystem" where
  "mkdir_parents folder fs =
     (\<lambda>q. if (q = folder \<or> take (length q + 1) folder = q @ ''/'') \<and> fs q = None
          then Some Directory else fs q)"

definition path_join :: "string \<Rightarrow> string \<Rightarrow> string" where
  "path_join folder name = folder @ ''/'' @ name"

text \<open>\<open>str\<close> of a natural number, as the f-string writes \<open>idx + 1\<close>.\<close>

definition digit :: "nat \<Rightarrow> char" where
  "digit d = ''0123456789'' ! d"

fun str :: "nat \<Rightarrow> string" where
  "str n = (if n < 10 then [digit n] else str (n div 10) @ [digit (n mod 10)])"

text \<open>The loop \<open>for idx, page in enumerate(self)\<close>, entered with the index of the next page.\<close>

fun save_pages :: "string \<Rightarrow> string \<Rightarrow> nat \<Rightarrow> FontPage list \<Rightarrow> filesystem \<Rightarrow> filesystem" where
  "save_pages folder extension idx [] fs = fs"
| "save_pages folder extension idx (pg # pgs) fs =
     save_pages folder extension (idx + 1) pgs
       (FontPage_save (Some (path_join folder (''page'' @ str (idx + 1) @ ''.'' @ extension)))
          pg fs)"

definition FontBooklet_save ::
  "string \<Rightarrow> string \<Rightarrow> FontBooklet \<Rightarrow> filesystem \<Rightarrow> (error + unit) \<times> filesystem" where
  "FontBooklet_save folder extension bk fs =
     (if \<not> is_dir fs folder then (Inl NotADirectoryError, fs)
      else
        (let fs1 = (if \<not> path_exists fs folder then mkdir_parents folder fs else fs)
         in (Inr (), save_pages folder extension 0 (pages bk) fs1)))"

section \<open>Notions used in the statements\<close>

text \<open>
  The renderer's font file loaded at size \<open>n\<close>; the renderer with that font and that
  font size; and the size its text measures at with that font.
\<close>

definition font_at :: "FontPreview \<Rightarrow> int \<Rightarrow> FreeTypeFont" where
  "font_at fp n = \<lparr> path = path (font fp), font_px = n \<rparr>"

definition at_size :: "FontPreview \<Rightarrow> int \<Rightarrow> FontPreview" where
  "at_size fp n = fp\<lparr>font_size := n, font := font_at fp n\<rparr>"

definition measured_at :: "externals \<Rightarrow> FontPreview \<Rightarrow> int \<Rightarrow> int \<times> int" where
  "measured_at ext fp n = get_multiline_textsize ext (font_text fp) (font_at fp n)"

text \<open>
  Two concrete imaging libraries for the examples.  In \<open>fixed_metrics box\<close> every text
  has the bounding box \<open>box\<close> at every font size.  In \<open>linear_metrics\<close> a character is half
  as wide as the font size and a line as high as the font size.  In both, \<open>add_image\<close>
  pastes the other renderer's image and \<open>new_size\<close> gives the logo a blank canvas of the
  new size.
\<close>

definition fixed_metrics :: "bbox \<Rightarrow> externals" where
  "fixed_metrics box =
     \<lparr> getbbox = \<lambda>f text. box,
       multiline_textbbox = \<lambda>text f. box,
       Image_open = \<lambda>file. Image ''RGB'' 0 0 [] [],
       add_image = \<lambda>banner other position.
         (banner\<lparr>image := image_do (Paste (image other) position) (image banner)\<rparr>, other),
       new_size = \<lambda>sz logo.
         logo\<lparr>dimension := sz, image := Image_new (color_system logo) sz (bg_color logo)\<rparr> \<rparr>"

definition linear_metrics :: externals where
  "linear_metrics =
     \<lparr> getbbox = \<lambda>f text. (0, 0, font_px f * int (length text) div 2, font_px f),
       multiline_textbbox = \<lambda>text f. (0, 0, font_px f * int (length text) div 2, font_px f),
       Image_open = \<lambda>file. Image ''RGB'' 0 0 [] [],
       add_image = \<lambda>banner other position.
         (banner\<lparr>image := image_do (Paste (image other) position) (image banner)\<rparr>, other),
       new_size = \<lambda>sz logo.
         logo\<lparr>dimension := sz, image := Image_new (color_system logo) sz (bg_color logo)\<rparr> \<rparr>"

text \<open>A preview built with the constructor's default arguments on a canvas of size \<open>dim\<close>.\<close>

definition default_preview :: "externals \<Rightarrow> int \<times> int \<Rightarrow> FontPreview" where
  "default_preview ext dim =
     projr (FontPreview_init ext ''Roboto-Regular.ttf'' 64 ''a b c d e f'' ''RGB'' ''white''
              ''black'' dim)"

text \<open>The page that \<open>FontPage()\<close> builds, with no template and no renderer.\<close>

definition blank_page :: FontPage where
  "blank_page = fst (snd (FontPage_init (fixed_metrics (0, 0, 0, 0)) None (2480, 3508)
                            None None None None (\<lambda>r. Other)))"

text \<open>The template that \<open>__compose\<close> works with: the page's own, or the default one.\<close>

definition template_or_default :: "FontPage \<Rightarrow> error + FontPageTemplate" where
  "template_or_default pg =
     (case template pg of
        Some t \<Rightarrow> Inr t
      | None \<Rightarrow> FontPageTemplate_init (snd (page_dimension pg)) 6)"

text \<open>
  What composing a page keeps of a renderer: its text, its font file, and its canvas
  width unless that has become the page width \<open>W\<close>; and the heaps in which every renderer
  has kept its class and these.
\<close>

definition same_face :: "int \<Rightarrow> FontPreview \<Rightarrow> FontPreview \<Rightarrow> bool" where
  "same_face W fp fp' \<longleftrightarrow>
     font_text fp' = font_text fp \<and> path (font fp') = path (font fp) \<and>
     (fst (dimension fp') = fst (dimension fp) \<or> fst (dimension fp') = W)"


text \<open>
  The template that \<open>FontPageTemplate(3508)\<close> builds; a heap with a banner, a logo and a
  preview; and a page whose header and footer are that banner and whose body is that
  preview.
\<close>

definition a4_template :: FontPageTemplate where
  "a4_template =
     \<lparr> page_height = 3508, unit = 584,
       header_font_size = 120, header_units = 584, header_text_position = Name ''center'',
       body_font_size = 140, body_units = 1752, body_text_position = Name ''center'',
       footer_font_size = 120, footer_units = 1168, footer_text_position = Name ''center'' \<rparr>"

definition example_heap :: "externals \<Rightarrow> heap" where
  "example_heap ext =
     (\<lambda>r. Other)
       (10 := Renderer Banner (default_preview ext (2480, 584)),
        20 := Renderer Logo (default_preview ext (170, 170)),
        30 := Renderer Preview (default_preview ext (700, 327)))"

definition example_page :: FontPage where
  "example_page = blank_page\<lparr>header := Some 10, body := Some 30, footer := Some 10\<rparr>"



section \<open>Properties of \<open>FontPageTemplate\<close>\<close>

lemmas tpl_defs = FontPageTemplate_set_header_def FontPageTemplate_set_body_def
  FontPageTemplate_set_footer_def check_units_def

lemma template_apply_within:
  "units_within_page t \<Longrightarrow> units_within_page (snd (template_apply c t))"
  by (cases c) (auto simp: tpl_defs units_within_page_def Let_def)

lemma template_run_within:
  "units_within_page t \<Longrightarrow> units_within_page (snd (template_run cs t))"
proof (induction cs arbitrary: t)
  case Nil
  then show ?case by simp
next
  case (Cons c cs)
  have "snd (template_run (c # cs) t) = snd (template_run cs (snd (template_apply c t)))"
    by (simp split: prod.splits)
  with Cons.IH [OF template_apply_within [OF Cons.prems]] show ?case by simp
qed

text \<open>
  C2, as stated, fails: \<open>set_header\<close> stores the font size before it checks the units.
  With the default template of height 3508, \<open>set_header(50, 7, 'top')\<close> asks for a band
  of 4088 pixels, raises \<open>ValueError\<close>, and leaves \<open>header_font_size\<close> at 50 instead of 120.
\<close>

theorem rejected_set_header_changes_font_size:
  "FontPageTemplate_init 3508 6 =
     Inr \<lparr> page_height = 3508, unit = 584,
           header_font_size = 120, header_units = 584, header_text_position = Name ''center'',
           body_font_size = 140, body_units = 1752, body_text_position = Name ''center'',
           footer_font_size = 120, footer_units = 1168, footer_text_position = Name ''center'' \<rparr>
   \<and> (584::int) * 7 + 1752 + 1168 > 3508
   \<and> FontPageTemplate_set_header 50 7 (Name ''top'')
       \<lparr> page_height = 3508, unit = 584,
         header_font_size = 120, header_units = 584, header_text_position = Name ''center'',
         body_font_size = 140, body_units = 1752, body_text_position = Name ''center'',
         footer_font_size = 120, footer_units = 1168, footer_text_position = Name ''center'' \<rparr>
     = (Inl ValueError,
       \<lparr> page_height = 3508, unit = 584,
         header_font_size = 50, header_units = 584, header_text_position = Name ''center'',
         body_font_size = 140, body_units = 1752, body_text_position = Name ''center'',
         footer_font_size = 120, footer_units = 1168, footer_text_position = Name ''center'' \<rparr>)"
  by (simp add: FontPageTemplate_init_def tpl_defs Let_def)

text \<open>
  C2, amended: whenever the requested band height makes the sum of the three band
  heights exceed \<open>page_height\<close>, each of \<open>set_header\<close>, \<open>set_body\<close> and \<open>set_footer\<close>
  raises \<open>ValueError\<close> and leaves every field other than the font size of the band
  addressed as it was: the three band heights, the three text positions, \<open>page_height\<close>,
  \<open>unit\<close> and the font sizes of the other two bands.
\<close>

theorem rejected_band_update_frame:
  "(unit t * n + body_units t + footer_units t > page_height t \<longrightarrow>
      fst (FontPageTemplate_set_header fs n p t) = Inl ValueError \<and>
      (snd (FontPageTemplate_set_header fs n p t))\<lparr>header_font_size := header_font_size t\<rparr> = t)
   \<and> (header_units t + unit t * n + footer_units t > page_height t \<longrightarrow>
      fst (FontPageTemplate_set_body fs n p t) = Inl ValueError \<and>
      (snd (FontPageTemplate_set_body fs n p t))\<lparr>body_font_size := body_font_size t\<rparr> = t)
   \<and> (header_units t + body_units t + unit t * n > page_height t \<longrightarrow>
      fst (FontPageTemplate_set_footer fs n p t) = Inl ValueError \<and>
      (snd (FontPageTemplate_set_footer fs n p t))\<lparr>footer_font_size := footer_font_size t\<rparr> = t)"
  by (simp add: tpl_defs Let_def)

theorem rejected_band_update_frame_witness:
  "unit \<lparr> page_height = 3508, unit = 584,
         header_font_size = 120, header_units = 584, header_text_position = Name ''center'',
         body_font_size = 140, body_units = 1752, body_text_position = Name ''center'',
         footer_font_size = 120, footer_units = 1168, footer_text_position = Name ''center'' \<rparr> * 7
     + 1752 + 1168 > (3508::int)
   \<and> fst (FontPageTemplate_set_header 50 7 (Name ''top'')
       \<lparr> page_height = 3508, unit = 584,
         header_font_size = 120, header_units = 584, header_text_position = Name ''center'',
         body_font_size = 140, body_units = 1752, body_text_position = Name ''center'',
         footer_font_size = 120, footer_units = 1168, footer_text_position = Name ''center'' \<rparr>)
     = Inl ValueError
   \<and> header_units (snd (FontPageTemplate_set_header 50 7 (Name ''top'')
       \<lparr> page_height = 3508, unit = 584,
         header_font_size = 120, header_units = 584, header_text_position = Name ''center'',
         body_font_size = 140, body_units = 1752, body_text_position = Name ''center'',
         footer_font_size = 120, footer_units = 1168, footer_text_position = Name ''center'' \<rparr>))
     = 584"
  using rejected_band_update_frame [of
       "\<lparr> page_height = 3508, unit = 584,
         header_font_size = 120, header_units = 584, header_text_position = Name ''center'',
         body_font_size = 140, body_units = 1752, body_text_position = Name ''center'',
         footer_font_size = 120, footer_units = 1168, footer_text_position = Name ''center'' \<rparr>"
       7 50 "Name ''top''"]
  by (simp add: tpl_defs Let_def)

text \<open>
  C4: a template built with any \<open>page_height \<ge> 0\<close> and six units satisfies
  \<open>header_units + body_units + footer_units \<le> page_height\<close>, and so does the template
  after every sequence of \<open>set_header\<close>, \<open>set_body\<close> and \<open>set_footer\<close> calls, whether the
  calls return or raise.
\<close>

theorem template_units_invariant:
  assumes "0 \<le> ph"
  shows "\<exists>t0. FontPageTemplate_init ph 6 = Inr t0 \<and> units_within_page t0 \<and>
           (\<forall>cs. units_within_page (snd (template_run cs t0)))"
proof -
  let ?u = "ph div 6"
  obtain t0 where t0: "FontPageTemplate_init ph 6 = Inr t0"
    by (simp add: FontPageTemplate_init_def Let_def)
  have "?u + ?u * 3 + ?u * 2 \<le> ph" by presburger
  with t0 have "units_within_page t0"
    by (auto simp: FontPageTemplate_init_def Let_def units_within_page_def)
  with t0 show ?thesis using template_run_within by blast
qed

theorem template_units_invariant_witness:
  "(0::int) \<le> 3508 \<and> (\<exists>t0. FontPageTemplate_init 3508 6 = Inr t0 \<and> units_within_page t0 \<and>
     units_within_page (snd (template_run
        [SetHeader 50 7 (Name ''top''), SetBody 170 3 (Name ''left'')] t0)))"
proof -
  have h: "(0::int) \<le> 3508" by simp
  from template_units_invariant [OF h] obtain t0 where
    "FontPageTemplate_init 3508 6 = Inr t0" "units_within_page t0"
    "\<forall>cs. units_within_page (snd (template_run cs t0))" by blast
  with h show ?thesis by blast
qed

text \<open>
  C9: with \<open>page_height = 3508\<close> and six units the unit is 584, and
  \<open>set_header(120, 1, 'center')\<close>, \<open>set_body(170, 3, 'left')\<close>, \<open>set_footer(100, 2, 'right')\<close>
  all return, leaving band heights 584, 1752 and 1168, which add up to 3504.
\<close>

theorem template_scenario:
  "\<exists>t0 t3. FontPageTemplate_init 3508 6 = Inr t0 \<and> unit t0 = 584 \<and>
     template_run [SetHeader 120 1 (Name ''center''), SetBody 170 3 (Name ''left''),
                   SetFooter 100 2 (Name ''right'')] t0 = ([Inr (), Inr (), Inr ()], t3) \<and>
     header_units t3 = 584 \<and> body_units t3 = 1752 \<and> footer_units t3 = 1168 \<and>
     header_units t3 + body_units t3 + footer_units t3 = 3504 \<and> (3504::int) \<le> 3508"
  by (simp add: FontPageTemplate_init_def tpl_defs Let_def)

section \<open>Properties of \<open>FontPreview\<close>\<close>

subsection \<open>The resize loop\<close>



lemma font_at_sel [simp]: "path (font_at fp n) = path (font fp)" "font_px (font_at fp n) = n"
  by (simp_all add: font_at_def)

lemma at_size_sel [simp]:
  "font_size (at_size fp n) = n" "dimension (at_size fp n) = dimension fp"
  "font_text (at_size fp n) = font_text fp" "font (at_size fp n) = font_at fp n"
  by (simp_all add: at_size_def)

lemma font_at_at_size [simp]: "font_at (at_size fp m) n = font_at fp n"
  by (simp add: font_at_def)

lemma measured_at_at_size [simp]: "measured_at ext (at_size fp m) n = measured_at ext fp n"
  by (simp add: measured_at_def)

lemma at_size_at_size [simp]: "at_size (at_size fp m) n = at_size fp n"
  by (simp add: at_size_def font_at_def)

lemma resize_loop_exit:
  "\<not> tuple_gt ts (dimension fp) \<Longrightarrow> resize_loop ext ts fp = (Inr (), fp)"
  by (subst resize_loop.simps) simp







lemma draw_keeps [simp]:
  "measured_at ext (draw ext al fp) n = measured_at ext fp n"
  "dimension (draw ext al fp) = dimension fp"
  "font_size (draw ext al fp) = font_size fp"
  "font_text (draw ext al fp) = font_text fp"
  "font (draw ext al fp) = font fp"
  by (simp_all add: draw_def measured_at_def font_at_def Let_def)




lemma default_preview_init:
  "FontPreview_init ext ''Roboto-Regular.ttf'' 64 ''a b c d e f'' ''RGB'' ''white'' ''black'' dim
     = Inr (default_preview ext dim)"
  by (simp add: default_preview_def FontPreview_init_def truetype_def)

lemma default_preview_sel:
  "font_text (default_preview ext dim) = ''a b c d e f''"
  "path (font (default_preview ext dim)) = ''Roboto-Regular.ttf''"
  "font (default_preview ext dim) = \<lparr> path = ''Roboto-Regular.ttf'', font_px = 64 \<rparr>"
  "dimension (default_preview ext dim) = dim"
  "font_size (default_preview ext dim) = 64"
  by (simp_all add: default_preview_def FontPreview_init_def draw_def truetype_def Let_def)





text \<open>
  C1: the claim reads the loop test as a comparison by components.  The code writes
  \<open>text_size > self.dimension\<close> on two tuples, which Python decides on the widths alone
  unless they are equal.  Two runs of \<open>__resize\<close> where the measured height is over the
  canvas height and the loop is not entered, so that the renderer is returned as it was:
  a text measured as \<open>(10, 500)\<close> on a canvas \<open>(100, 100)\<close>; and a text with the box
  \<open>(0, 25, 300, 110)\<close>, measured as \<open>(300, -85)\<close>, on a renderer whose \<open>dimension\<close> has
  been set to \<open>(2480, -584)\<close>, as \<open>FontPage\<close> does for a template band of \<open>-1\<close> units.
\<close>

theorem resize_stops_while_height_exceeds:
  "get_multiline_textsize (fixed_metrics (0, 500, 10, 0)) ''a b c d e f''
       \<lparr> path = ''Roboto-Regular.ttf'', font_px = 64 \<rparr> = (10, 500)
   \<and> resize (fixed_metrics (0, 500, 10, 0))
         (default_preview (fixed_metrics (0, 500, 10, 0)) (100, 100))
       = (Inr (), default_preview (fixed_metrics (0, 500, 10, 0)) (100, 100))
   \<and> get_multiline_textsize (fixed_metrics (0, 25, 300, 110)) ''a b c d e f''
       \<lparr> path = ''Roboto-Regular.ttf'', font_px = 64 \<rparr> = (300, - 85)
   \<and> resize (fixed_metrics (0, 25, 300, 110))
         ((default_preview (fixed_metrics (0, 25, 300, 110)) (2480, 584))
            \<lparr>dimension := (2480, - 584)\<rparr>)
       = (Inr (), (default_preview (fixed_metrics (0, 25, 300, 110)) (2480, 584))
            \<lparr>dimension := (2480, - 584)\<rparr>)"
  by (simp add: resize_def resize_loop_exit get_multiline_textsize_def bbox2size_def
      fixed_metrics_def tuple_gt_def default_preview_sel)

subsection \<open>Text positions\<close>

lemma CALC_POSITION_center:
  "CALC_POSITION ''center'' =
     Some (\<lambda>ixy fxy. ((fst ixy - fst fxy) div 2, (snd ixy - snd fxy) div 2))"
  by (simp add: CALC_POSITION_def)

lemma CALC_POSITION_unknown:
  "key \<notin> set [''center'', ''top'', ''below'', ''rcenter'', ''rtop'', ''rbelow'',
                ''lcenter'', ''ltop'', ''lbelow''] \<Longrightarrow> CALC_POSITION key = None"
  by (simp add: CALC_POSITION_def)

text \<open>
  C7: each of the nine entries of \<open>CALC_POSITION\<close> is a function of the container size
  \<open>(cw, ch)\<close> and the content size \<open>(w, h)\<close> alone.  Its horizontal coordinate is \<open>0\<close> for the
  names starting with \<open>l\<close>, \<open>cw - w\<close> for those starting with \<open>r\<close> and \<open>(cw - w) div 2\<close> for
  the others; its vertical coordinate is \<open>0\<close> for \<open>top\<close>, \<open>ch - h\<close> for \<open>below\<close> and
  \<open>(ch - h) div 2\<close> for \<open>center\<close>.  In particular \<open>ltop\<close> gives \<open>(0, 0)\<close>.
\<close>

theorem anchor_formulas:
  "map_option (\<lambda>f. f (cw, ch) (w, h)) (CALC_POSITION ''center'')
     = Some ((cw - w) div 2, (ch - h) div 2)
   \<and> map_option (\<lambda>f. f (cw, ch) (w, h)) (CALC_POSITION ''top'') = Some ((cw - w) div 2, 0)
   \<and> map_option (\<lambda>f. f (cw, ch) (w, h)) (CALC_POSITION ''below'')
       = Some ((cw - w) div 2, ch - h)
   \<and> map_option (\<lambda>f. f (cw, ch) (w, h)) (CALC_POSITION ''rcenter'')
       = Some (cw - w, (ch - h) div 2)
   \<and> map_option (\<lambda>f. f (cw, ch) (w, h)) (CALC_POSITION ''rtop'') = Some (cw - w, 0)
   \<and> map_option (\<lambda>f. f (cw, ch) (w, h)) (CALC_POSITION ''rbelow'') = Some (cw - w, ch - h)
   \<and> map_option (\<lambda>f. f (cw, ch) (w, h)) (CALC_POSITION ''lcenter'')
       = Some (0, (ch - h) div 2)
   \<and> map_option (\<lambda>f. f (cw, ch) (w, h)) (CALC_POSITION ''ltop'') = Some (0, 0)
   \<and> map_option (\<lambda>f. f (cw, ch) (w, h)) (CALC_POSITION ''lbelow'') = Some (0, ch - h)"
  by (simp add: CALC_POSITION_def)

text \<open>
  C6: \<open>set_text_position\<close> with a name that is none of the nine keys returns, with the
  text position \<open>((container_w - content_w) div 2, (container_h - content_h) div 2)\<close>, and
  leaves the renderer exactly as \<open>set_text_position('center')\<close> does.
\<close>

theorem unknown_anchor_is_centered:
  assumes "key \<notin> set [''center'', ''top'', ''below'', ''rcenter'', ''rtop'', ''rbelow'',
                       ''lcenter'', ''ltop'', ''lbelow'']"
  shows "set_text_position ext (Name key) fp = set_text_position ext (Name ''center'') fp \<and>
         font_position (set_text_position ext (Name key) fp) =
           ((fst (dimension fp) - fst (get_multiline_textsize ext (font_text fp) (font fp))) div 2,
            (snd (dimension fp) - snd (get_multiline_textsize ext (font_text fp) (font fp))) div 2)"
  using CALC_POSITION_unknown [OF assms]
  by (simp add: set_text_position_def CALC_POSITION_center draw_def Let_def)

theorem unknown_anchor_is_centered_witness:
  "''left'' \<notin> set [''center'', ''top'', ''below'', ''rcenter'', ''rtop'', ''rbelow'',
                     ''lcenter'', ''ltop'', ''lbelow'']
   \<and> set_text_position linear_metrics (Name ''left'') (default_preview linear_metrics (700, 327))
       = set_text_position linear_metrics (Name ''center'')
           (default_preview linear_metrics (700, 327))
   \<and> font_position (set_text_position linear_metrics (Name ''left'')
                       (default_preview linear_metrics (700, 327))) = (174, 195)"
proof -
  have k: "''left'' \<notin> set [''center'', ''top'', ''below'', ''rcenter'', ''rtop'', ''rbelow'',
                     ''lcenter'', ''ltop'', ''lbelow'']" by simp
  have m: "get_multiline_textsize linear_metrics ''a b c d e f''
             \<lparr> path = ''Roboto-Regular.ttf'', font_px = 64 \<rparr> = (352, -64)"
    by (simp add: get_multiline_textsize_def linear_metrics_def bbox2size_def)
  note u = unknown_anchor_is_centered [OF k, of linear_metrics
      "default_preview linear_metrics (700, 327)"]
  from u have e: "set_text_position linear_metrics (Name ''left'')
         (default_preview linear_metrics (700, 327))
       = set_text_position linear_metrics (Name ''center'')
           (default_preview linear_metrics (700, 327))"
    by (rule conjunct1)
  from u [THEN conjunct2]
  have p: "font_position (set_text_position linear_metrics (Name ''left'')
                       (default_preview linear_metrics (700, 327))) = (174, 195)"
    by (simp add: default_preview_sel m)
  from k e p show ?thesis by blast
qed

section \<open>Properties of \<open>FontBooklet\<close>\<close>

lemma str_small: "str 1 = ''1''" "str 2 = ''2''" "str 12 = ''12''"
  by (simp_all add: digit_def)

lemma FontBooklet_save_not_dir:
  "\<not> is_dir fs folder \<Longrightarrow> FontBooklet_save folder e bk fs = (Inl NotADirectoryError, fs)"
  by (simp add: FontBooklet_save_def)

lemma FontBooklet_save_dir:
  "is_dir fs folder \<Longrightarrow>
   FontBooklet_save folder e bk fs = (Inr (), save_pages folder e 0 (pages bk) fs)"
  by (auto simp: FontBooklet_save_def is_dir_def path_exists_def Let_def split: option.splits)

lemma save_into_directory_example:
  "FontBooklet_save ''out'' ''png'' \<lparr>pages = [blank_page, blank_page]\<rparr> [''out'' \<mapsto> Directory]
     = (Inr (), [''out'' \<mapsto> Directory, ''out/page1.png'' \<mapsto> File (page blank_page),
                 ''out/page2.png'' \<mapsto> File (page blank_page)])"
  by (simp add: FontBooklet_save_def is_dir_def path_exists_def FontPage_save_def path_join_def
      digit_def Let_def)

text \<open>
  C3: the claim has \<open>save\<close> create a folder that does not exist and go on.  The code
  tests \<open>folder.is_dir()\<close> first, which is false for a path that does not exist, and
  raises \<open>NotADirectoryError\<close>; the \<open>mkdir\<close> after it is never reached.  Saving the
  booklet of two pages into the folder \<open>out\<close> of an empty file system raises and leaves
  the file system empty.
\<close>

theorem save_to_missing_folder_raises:
  "path_exists Map.empty ''out'' = False \<and>
   FontBooklet_save ''out'' ''png'' \<lparr>pages = [blank_page, blank_page]\<rparr> Map.empty
     = (Inl NotADirectoryError, Map.empty)"
  by (simp add: FontBooklet_save_def is_dir_def path_exists_def)

section \<open>Properties of \<open>FontPage\<close>\<close>

subsection \<open>The logo\<close>

lemma set_header_banner:
  "hp h = Renderer Banner H \<Longrightarrow>
   FontPage_set_header ext h pg hp =
     (Inr (), pg\<lparr>header := Some h\<rparr>, hp(h := Renderer Banner (widen ext pg H)))"
  by (simp add: FontPage_set_header_def is_FontBanner_def)

lemma set_logo_ok:
  assumes "hp l = Renderer Logo L" "header pg = Some h" "hp h = Renderer hk H"
  shows "FontPage_set_logo ext l pg hp =
     (let L1 = (if tuple_lt (image_size (image H)) (image_size (image L))
                then new_size ext (75, 75) L else L);
          both = add_image ext H L1
                   (the (CALC_POSITION ''lcenter'') (dimension H)
                      (get_font_size ext (font H) (font_text H)))
      in (Inr (), pg, hp(l := Renderer Logo (snd both), h := Renderer hk (fst both))))"
  using assms by (simp add: FontPage_set_logo_def is_FontLogo_def Let_def)

lemma set_body_logo:
  "FontPage_set_body ext r pg hp = (res, pg', hp') \<Longrightarrow> logo pg' = logo pg"
  by (auto simp: FontPage_set_body_def split: if_splits pyobj.splits)

lemma set_footer_logo:
  "FontPage_set_footer ext r pg hp = (res, pg', hp') \<Longrightarrow> logo pg' = logo pg"
  by (auto simp: FontPage_set_footer_def split: if_splits pyobj.splits)

lemma then_do_Inr:
  "then_do (Inr u, pg, hp) f = f pg hp"
  by (simp add: then_do_def)

lemma then_do_ok:
  "then_do m f = (Inr u, pg', hp') \<Longrightarrow> \<exists>pg1 hp1. m = (Inr (), pg1, hp1) \<and> f pg1 hp1 = (Inr u, pg', hp')"
  by (cases m) (auto simp: then_do_def split: sum.splits)


lemma init_after_logo:
  assumes h: "hp h = Renderer Banner H" and l: "hp l = Renderer Logo L"
  shows "\<exists>pg1 hp2. logo pg1 = Unassigned \<and> header pg1 = Some h \<and>
           (\<forall>b f. FontPage_init ext tmpl dim (Some h) (Some l) b f hp =
              then_do
                (case b of Some r \<Rightarrow> FontPage_set_body ext r pg1 hp2
                 | None \<Rightarrow> (Inr (), pg1\<lparr>body := None\<rparr>, hp2))
                (\<lambda>pg hp. case f of Some r \<Rightarrow> FontPage_set_footer ext r pg hp
                 | None \<Rightarrow> (Inr (), pg\<lparr>footer := None\<rparr>, hp)))"
proof -
  from h l have ne: "l \<noteq> h" by auto
  define d where "d = (case tmpl of Some t \<Rightarrow> (fst dim, page_height t) | None \<Rightarrow> dim)"
  define pg0 where "pg0 = \<lparr> template = tmpl, page_dimension = d, page_color_system = ''RGB'',
                  page = Image_new ''RGB'' d ''white'',
                  header = None, logo = Unassigned, body = None, footer = None \<rparr>"
  define pg1 where "pg1 = pg0\<lparr>header := Some h\<rparr>"
  define hp1 where "hp1 = hp(h := Renderer Banner (widen ext pg0 H))"
  have a: "FontPage_set_header ext h pg0 hp = (Inr (), pg1, hp1)"
    unfolding pg1_def hp1_def using h by (rule set_header_banner)
  have l1: "hp1 l = Renderer Logo L" using ne l by (simp add: hp1_def)
  have h1: "hp1 h = Renderer Banner (widen ext pg0 H)" by (simp add: hp1_def)
  have hd1: "header pg1 = Some h" by (simp add: pg1_def)
  from set_logo_ok [of hp1 l L pg1 h Banner "widen ext pg0 H" ext, OF l1 hd1 h1]
  obtain hp2 where b: "FontPage_set_logo ext l pg1 hp1 = (Inr (), pg1, hp2)"
    by (simp add: Let_def)
  have lg: "logo pg1 = Unassigned" by (simp add: pg1_def pg0_def)
  have "FontPage_init ext tmpl dim (Some h) (Some l) b f hp =
              then_do
                (case b of Some r \<Rightarrow> FontPage_set_body ext r pg1 hp2
                 | None \<Rightarrow> (Inr (), pg1\<lparr>body := None\<rparr>, hp2))
                (\<lambda>pg hp. case f of Some r \<Rightarrow> FontPage_set_footer ext r pg hp
                 | None \<Rightarrow> (Inr (), pg\<lparr>footer := None\<rparr>, hp))" for b f
    unfolding FontPage_init_def d_def [symmetric] Let_def pg0_def [symmetric]
    by (simp add: a b then_do_Inr)
  with lg hd1 show ?thesis by blast
qed

lemma blank_page_eq:
  "blank_page = \<lparr> template = None, page_dimension = (2480, 3508), page_color_system = ''RGB'',
                   page = Image ''RGB'' 2480 3508 ''white'' [],
                   header = None, logo = Assigned None, body = None, footer = None \<rparr>"
  by (simp add: blank_page_def FontPage_init_def then_do_def Let_def Image_new_def)

lemma example_page_sel:
  "header example_page = Some 10" "body example_page = Some 30" "footer example_page = Some 10"
  "page_dimension example_page = (2480, 3508)"
  "template_or_default example_page = Inr a4_template"
  by (simp_all add: example_page_def blank_page_eq template_or_default_def
      FontPageTemplate_init_def a4_template_def Let_def)

lemma example_heap_sel:
  "example_heap ext 10 = Renderer Banner (default_preview ext (2480, 584))"
  "example_heap ext 20 = Renderer Logo (default_preview ext (170, 170))"
  "example_heap ext 30 = Renderer Preview (default_preview ext (700, 327))"
  by (simp_all add: example_heap_def)


text \<open>
  C10: given a banner at address \<open>h\<close> and a logo at address \<open>l\<close>.  On a page whose header
  is \<open>h\<close>, \<open>set_logo(l)\<close> returns and leaves the page object itself as it was, so it
  assigns no attribute and in particular not \<open>logo\<close>; in the heap it replaces the banner
  by what \<open>add_image\<close> makes of it and the logo by what \<open>add_image\<close> leaves of the logo or of
  the logo resized to \<open>(75, 75)\<close>, and nothing else.  A page constructed with this header
  and this logo has the header and no \<open>logo\<close> attribute, whatever its body and footer
  arguments are.
\<close>

theorem set_logo_leaves_logo_unassigned:
  assumes h: "hp h = Renderer Banner H" and l: "hp l = Renderer Logo L"
  shows "(header pg = Some h \<longrightarrow>
           (\<exists>hp' L' pos. FontPage_set_logo ext l pg hp = (Inr (), pg, hp') \<and>
              (L' = L \<or> L' = new_size ext (75, 75) L) \<and>
              hp' h = Renderer Banner (fst (add_image ext H L' pos)) \<and>
              hp' l = Renderer Logo (snd (add_image ext H L' pos)) \<and>
              (\<forall>r. r \<noteq> h \<and> r \<noteq> l \<longrightarrow> hp' r = hp r)))
       \<and> (\<exists>pg' hp'. FontPage_init ext tmpl dim (Some h) (Some l) None None hp = (Inr (), pg', hp')
              \<and> header pg' = Some h \<and> logo pg' = Unassigned)
       \<and> (\<forall>b f pg' hp'. FontPage_init ext tmpl dim (Some h) (Some l) b f hp = (Inr (), pg', hp')
              \<longrightarrow> logo pg' = Unassigned)"
proof (intro conjI impI allI)
  assume hd: "header pg = Some h"
  from h l have ne: "l \<noteq> h" by auto
  define L1 where "L1 = (if tuple_lt (image_size (image H)) (image_size (image L))
                then new_size ext (75, 75) L else L)"
  define pos where "pos = the (CALC_POSITION ''lcenter'') (dimension H)
                      (get_font_size ext (font H) (font_text H))"
  define hp' where "hp' = hp(l := Renderer Logo (snd (add_image ext H L1 pos)),
                             h := Renderer Banner (fst (add_image ext H L1 pos)))"
  have "FontPage_set_logo ext l pg hp = (Inr (), pg, hp')"
    using set_logo_ok [of hp l L pg h Banner H ext, OF l hd h] by (simp add: Let_def L1_def pos_def hp'_def)
  moreover have "L1 = L \<or> L1 = new_size ext (75, 75) L" by (simp add: L1_def)
  moreover have "hp' h = Renderer Banner (fst (add_image ext H L1 pos))" by (simp add: hp'_def)
  moreover have "hp' l = Renderer Logo (snd (add_image ext H L1 pos))"
    using ne by (simp add: hp'_def)
  moreover have "\<forall>r. r \<noteq> h \<and> r \<noteq> l \<longrightarrow> hp' r = hp r" by (simp add: hp'_def)
  ultimately show "\<exists>hp' L' pos. FontPage_set_logo ext l pg hp = (Inr (), pg, hp') \<and>
              (L' = L \<or> L' = new_size ext (75, 75) L) \<and>
              hp' h = Renderer Banner (fst (add_image ext H L' pos)) \<and>
              hp' l = Renderer Logo (snd (add_image ext H L' pos)) \<and>
              (\<forall>r. r \<noteq> h \<and> r \<noteq> l \<longrightarrow> hp' r = hp r)"
    by blast
next
  from init_after_logo [OF h l, of ext tmpl dim] obtain pg1 hp2 where
    p: "logo pg1 = Unassigned" "header pg1 = Some h" and
    i: "\<And>b f. FontPage_init ext tmpl dim (Some h) (Some l) b f hp =
              then_do
                (case b of Some r \<Rightarrow> FontPage_set_body ext r pg1 hp2
                 | None \<Rightarrow> (Inr (), pg1\<lparr>body := None\<rparr>, hp2))
                (\<lambda>pg hp. case f of Some r \<Rightarrow> FontPage_set_footer ext r pg hp
                 | None \<Rightarrow> (Inr (), pg\<lparr>footer := None\<rparr>, hp))"
    by blast
  have "FontPage_init ext tmpl dim (Some h) (Some l) None None hp =
          (Inr (), pg1\<lparr>body := None, footer := None\<rparr>, hp2)"
    by (simp add: i then_do_Inr)
  with p show "\<exists>pg' hp'. FontPage_init ext tmpl dim (Some h) (Some l) None None hp = (Inr (), pg', hp')
              \<and> header pg' = Some h \<and> logo pg' = Unassigned"
    by simp
next
  fix b f pg' hp'
  assume r: "FontPage_init ext tmpl dim (Some h) (Some l) b f hp = (Inr (), pg', hp')"
  from init_after_logo [OF h l, of ext tmpl dim] obtain pg1 hp2 where
    p: "logo pg1 = Unassigned" and
    i: "\<And>b f. FontPage_init ext tmpl dim (Some h) (Some l) b f hp =
              then_do
                (case b of Some r \<Rightarrow> FontPage_set_body ext r pg1 hp2
                 | None \<Rightarrow> (Inr (), pg1\<lparr>body := None\<rparr>, hp2))
                (\<lambda>pg hp. case f of Some r \<Rightarrow> FontPage_set_footer ext r pg hp
                 | None \<Rightarrow> (Inr (), pg\<lparr>footer := None\<rparr>, hp))"
    by blast
  from r [unfolded i] then_do_ok obtain pgc hpc where
    c: "(case b of Some r \<Rightarrow> FontPage_set_body ext r pg1 hp2
                 | None \<Rightarrow> (Inr (), pg1\<lparr>body := None\<rparr>, hp2)) = (Inr (), pgc, hpc)"
    and d: "(case f of Some r \<Rightarrow> FontPage_set_footer ext r pgc hpc
                 | None \<Rightarrow> (Inr (), pgc\<lparr>footer := None\<rparr>, hpc)) = (Inr (), pg', hp')"
    by blast
  from c have "logo pgc = logo pg1"
    by (cases b) (auto dest: set_body_logo)
  moreover from d have "logo pg' = logo pgc"
    by (cases f) (auto dest: set_footer_logo)
  ultimately show "logo pg' = Unassigned" using p by simp
qed

theorem set_logo_leaves_logo_unassigned_witness:
  "example_heap linear_metrics 10 = Renderer Banner (default_preview linear_metrics (2480, 584))
   \<and> example_heap linear_metrics 20 = Renderer Logo (default_preview linear_metrics (170, 170))
   \<and> header example_page = Some 10
   \<and> (\<exists>hp'. FontPage_set_logo linear_metrics 20 example_page (example_heap linear_metrics)
               = (Inr (), example_page, hp') \<and>
             hp' 30 = example_heap linear_metrics 30)
   \<and> (\<exists>pg' hp'. FontPage_init linear_metrics None (2480, 3508) (Some 10) (Some 20) None None
                    (example_heap linear_metrics) = (Inr (), pg', hp')
              \<and> header pg' = Some 10 \<and> logo pg' = Unassigned)"
proof -
  let ?E = linear_metrics
  have h: "example_heap ?E 10 = Renderer Banner (default_preview ?E (2480, 584))"
    and l: "example_heap ?E 20 = Renderer Logo (default_preview ?E (170, 170))"
    by (simp_all add: example_heap_sel)
  have p: "header example_page = Some 10" by (simp add: example_page_sel)
  note T = set_logo_leaves_logo_unassigned [of "example_heap ?E" 10
      "default_preview ?E (2480, 584)" 20 "default_preview ?E (170, 170)", OF h l]
  from T [where pg = example_page and ext = ?E, THEN conjunct1, THEN mp, OF p]
  obtain hp' where "FontPage_set_logo ?E 20 example_page (example_heap ?E)
               = (Inr (), example_page, hp')"
    and "\<forall>r. r \<noteq> 10 \<and> r \<noteq> 20 \<longrightarrow> hp' r = example_heap ?E r" by blast
  then have a: "\<exists>hp'. FontPage_set_logo ?E 20 example_page (example_heap ?E)
               = (Inr (), example_page, hp') \<and> hp' 30 = example_heap ?E 30"
    by auto
  from T [where ext = ?E and tmpl = None and dim = "(2480, 3508)", THEN conjunct2, THEN conjunct1]
  have b: "\<exists>pg' hp'. FontPage_init ?E None (2480, 3508) (Some 10) (Some 20) None None
                    (example_heap ?E) = (Inr (), pg', hp')
              \<and> header pg' = Some 10 \<and> logo pg' = Unassigned" .
  from h l p a b show ?thesis by blast
qed

subsection \<open>Composing and drawing\<close>

lemma same_face_refl [simp]: "same_face W fp fp"
  by (simp add: same_face_def)






lemma set_text_position_face [simp]:
  "font_text (set_text_position ext pos fp) = font_text fp"
  "font (set_text_position ext pos fp) = font fp"
  "dimension (set_text_position ext pos fp) = dimension fp"
  by (simp_all add: set_text_position_def Let_def split: position.splits)













lemma drawn_image_do [simp]: "drawn (image_do d im) = drawn im @ [d]"
  by (simp add: image_do_def)

lemma width_image_do [simp]: "width (image_do d im) = width im"
  by (simp add: image_do_def)







end
